theory Spec2Isabelle
  imports Complex_Main "HOL-Library.AList"
begin

section \<open>Python values\<close>

text \<open>
  The values jsonx.py handles are Python objects. A parsed document is built from
  \<open>None\<close>, \<open>bool\<close>, \<open>int\<close>, \<open>float\<close>, \<open>str\<close>, \<open>list\<close> and \<open>dict\<close>; a caller of
  \<open>addProperty\<close> or \<open>setProperty\<close> may pass any other object as well, so the model keeps
  \<open>tuple\<close> (named by the docstring of \<open>NotAPropertyError\<close>) and an instance of any other
  class, identified by the class name. A \<open>dict\<close> keeps its insertion order, which
  \<open>tuple(d.keys())\<close> exposes, so it is an association list. No operation of the module
  computes with a float; it is carried as a real number.
\<close>

datatype pyval =
    PyNone
  | PyBool bool
  | PyInt int
  | PyFloat real
  | PyStr string
  | PyList "pyval list"
  | PyTuple "pyval list"
  | PyDict "(string \<times> pyval) list"
  | PyInstance string

datatype pytype =
  NoneType | TBool | TInt | TFloat | TStr | TList | TTuple | TDict | TClass string

fun type_of :: "pyval \<Rightarrow> pytype" where
  "type_of PyNone = NoneType"
| "type_of (PyBool b) = TBool"
| "type_of (PyInt i) = TInt"
| "type_of (PyFloat r) = TFloat"
| "type_of (PyStr s) = TStr"
| "type_of (PyList xs) = TList"
| "type_of (PyTuple xs) = TTuple"
| "type_of (PyDict kvs) = TDict"
| "type_of (PyInstance c) = TClass c"

section \<open>Exceptions\<close>

text \<open>
  The four exception classes of the module, with the arguments their constructors take
  (the message is a function of them), and the built-in exceptions the code can raise.
\<close>

datatype error =
    NotAPropertyError pyval
  | NotAObjectError pyval
  | JSONKeyNotFoundError string "string list" "string list"
  | JSONKeyAlreadyExists string "string list" "string list"
  | FileNotFoundError
  | JSONDecodeError
  | UnicodeDecodeError
  | ValueError
  | RecursionError
  | TypeError
  | AttributeError
  | IndexError
  | KeyError

definition indentLevel :: nat where
  "indentLevel = 4"

section \<open>Type discrimination\<close>

text \<open>\<^verbatim>\<open>type(rawData) in [type(None), float, int, list, bool, str]\<close>\<close>

definition isJSONProperty :: "pyval \<Rightarrow> bool" where
  "isJSONProperty rawData =
     (type_of rawData \<in> set [NoneType, TFloat, TInt, TList, TBool, TStr])"

text \<open>\<^verbatim>\<open>type(rawData) == dict\<close>\<close>

definition isJSONObject :: "pyval \<Rightarrow> bool" where
  "isJSONObject rawData = (type_of rawData = TDict)"

section \<open>Dictionary primitives\<close>

text \<open>
  \<open>object.keys()\<close>: only a \<open>dict\<close> has the method; on every other value of the model the
  attribute lookup raises \<open>AttributeError\<close>.
\<close>

fun keys_of :: "pyval \<Rightarrow> error + string list" where
  "keys_of (PyDict kvs) = Inr (map fst kvs)"
| "keys_of other = Inl AttributeError"

text \<open>\<^verbatim>\<open>key in object.keys()\<close>\<close>

definition containsKey :: "pyval \<Rightarrow> string \<Rightarrow> error + bool" where
  "containsKey object key =
     (case keys_of object of
        Inl e \<Rightarrow> Inl e
      | Inr ks \<Rightarrow> Inr (key \<in> set ks))"

text \<open>
  \<open>object[key]\<close> with a string key: a \<open>dict\<close> raises \<open>KeyError\<close> for a missing key, every
  other value of the model raises \<open>TypeError\<close> (not subscriptable, or indices must be
  integers).
\<close>

fun getitem :: "pyval \<Rightarrow> string \<Rightarrow> error + pyval" where
  "getitem (PyDict kvs) key =
     (case map_of kvs key of None \<Rightarrow> Inl KeyError | Some v \<Rightarrow> Inr v)"
| "getitem other key = Inl TypeError"

section \<open>Path resolution\<close>

text \<open>
  The loop of \<open>_getValueOfKeys\<close>: \<open>found\<close> is \<open>keys[:i]\<close>, \<open>rest\<close> is \<open>keys[i:]\<close>. The
  exception is built from \<open>rawData.keys()\<close>, the keys of the root.
\<close>

fun getValueOfKeys_loop ::
  "pyval \<Rightarrow> string list \<Rightarrow> string list \<Rightarrow> pyval \<Rightarrow> error + pyval" where
  "getValueOfKeys_loop rawData found [] currentObject = Inr currentObject"
| "getValueOfKeys_loop rawData found (key # rest) currentObject =
     (case containsKey currentObject key of
        Inl e \<Rightarrow> Inl e
      | Inr False \<Rightarrow>
          (case keys_of rawData of
             Inl e \<Rightarrow> Inl e
           | Inr allKeys \<Rightarrow> Inl (JSONKeyNotFoundError key allKeys found))
      | Inr True \<Rightarrow>
          (case getitem currentObject key of
             Inl e \<Rightarrow> Inl e
           | Inr child \<Rightarrow> getValueOfKeys_loop rawData (found @ [key]) rest child))"

definition getValueOfKeys :: "pyval \<Rightarrow> string list \<Rightarrow> error + pyval" where
  "getValueOfKeys rawData keys = getValueOfKeys_loop rawData [] keys rawData"

text \<open>
  \<open>object[key] = value\<close>: a \<open>dict\<close> keeps the position of a key it has and appends a
  new one; every other value of the model raises \<open>TypeError\<close>.
\<close>

fun setitem :: "pyval \<Rightarrow> string \<Rightarrow> pyval \<Rightarrow> error + pyval" where
  "setitem (PyDict kvs) key v = Inr (PyDict (AList.update key v kvs))"
| "setitem other key v = Inl TypeError"

text \<open>
  \<open>parentObject\<close> is a reference into the tree \<open>rawData\<close>, and the tree \<open>load\<close> builds
  shares no node, so \<open>parentObject[key] = value\<close> changes \<open>rawData\<close> at the path that led
  to \<open>parentObject\<close> and nowhere else. \<open>setitemAt rawData keys key value\<close> is \<open>rawData\<close>
  after that assignment.
\<close>

fun setitemAt :: "pyval \<Rightarrow> string list \<Rightarrow> string \<Rightarrow> pyval \<Rightarrow> error + pyval" where
  "setitemAt node [] key v = setitem node key v"
| "setitemAt node (k # ks) key v =
     (case getitem node k of
        Inl e \<Rightarrow> Inl e
      | Inr child \<Rightarrow>
          (case setitemAt child ks key v of
             Inl e \<Rightarrow> Inl e
           | Inr child' \<Rightarrow> setitem node k child'))"

text \<open>\<open>keys[-1]\<close> on a tuple: \<open>IndexError\<close> when it is empty. \<open>keys[:-1]\<close> is \<open>butlast keys\<close>.\<close>

definition index_last :: "string list \<Rightarrow> error + string" where
  "index_last keys = (if keys = [] then Inl IndexError else Inr (last keys))"

section \<open>Storage and the json module\<close>

text \<open>
  The storage maps a path to the bytes of the file there, \<open>None\<close> where no file exists.
  \<open>json.load\<close> and \<open>json.dump\<close> are not code of this repository: they are parameters.
  \<open>load\<close> is what \<open>json.load(fp)\<close> does on a file that holds the given bytes: it returns
  the document or raises, and it may raise any exception (\<open>JSONDecodeError\<close> for a text
  that is not JSON, \<open>UnicodeDecodeError\<close> for bytes that do not decode, \<open>ValueError\<close>,
  \<open>RecursionError\<close>). \<open>dump\<close> returns the text it has written to the file and the
  exception it raised, if any (it writes chunk by chunk, so a failure leaves the text
  written so far).
\<close>

type_synonym storage = "string \<Rightarrow> string option"

record json_module =
  load :: "string \<Rightarrow> error + pyval"
  dump :: "pyval \<Rightarrow> nat \<Rightarrow> string \<times> error option"

text \<open>An operation takes the storage and returns a value or an exception, and the storage.\<close>

type_synonym 'a io = "storage \<Rightarrow> (error + 'a) \<times> storage"

definition returnIO :: "'a \<Rightarrow> 'a io" where
  "returnIO x = (\<lambda>fs. (Inr x, fs))"

definition raise :: "error \<Rightarrow> 'a io" where
  "raise e = (\<lambda>fs. (Inl e, fs))"

definition liftIO :: "error + 'a \<Rightarrow> 'a io" where
  "liftIO r = (\<lambda>fs. (r, fs))"

definition bindIO :: "'a io \<Rightarrow> ('a \<Rightarrow> 'b io) \<Rightarrow> 'b io" where
  "bindIO m f =
     (\<lambda>fs. case m fs of
             (Inl e, fs') \<Rightarrow> (Inl e, fs')
           | (Inr x, fs') \<Rightarrow> f x fs')"

definition exists_file :: "storage \<Rightarrow> string \<Rightarrow> bool" where
  "exists_file fs filePath = (fs filePath \<noteq> None)"

definition readJSONFile :: "json_module \<Rightarrow> string \<Rightarrow> pyval io" where
  "readJSONFile json filePath =
     (\<lambda>fs. if \<not> exists_file fs filePath then (Inl FileNotFoundError, fs)
           else (case fs filePath of
                   None \<Rightarrow> (Inl FileNotFoundError, fs)
                 | Some text \<Rightarrow> (load json text, fs)))"

text \<open>Opening with mode \<open>"w"\<close> empties the file; \<open>dump\<close> then writes into it.\<close>

definition writeJSONFile :: "json_module \<Rightarrow> string \<Rightarrow> pyval \<Rightarrow> unit io" where
  "writeJSONFile json filePath data =
     (\<lambda>fs. if \<not> exists_file fs filePath then (Inl FileNotFoundError, fs)
           else (case dump json data indentLevel of
                   (text, None) \<Rightarrow> (Inr (), fs(filePath \<mapsto> text))
                 | (text, Some e) \<Rightarrow> (Inl e, fs(filePath \<mapsto> text))))"

text \<open>The built-in \<open>open(file, mode = "r")\<close> of \<open>isFormatCorrect\<close>.\<close>

definition open_read :: "string \<Rightarrow> unit io" where
  "open_read filePath =
     (\<lambda>fs. if exists_file fs filePath then (Inr (), fs) else (Inl FileNotFoundError, fs))"

section \<open>The public operations\<close>

definition getProperty :: "json_module \<Rightarrow> string \<Rightarrow> string list \<Rightarrow> pyval io" where
  "getProperty json filePath keys =
     bindIO (readJSONFile json filePath) (\<lambda>rawData.
     bindIO (liftIO (getValueOfKeys rawData keys)) (\<lambda>property.
     if isJSONObject property then raise (NotAPropertyError property)
     else returnIO property))"

definition setProperty ::
  "json_module \<Rightarrow> string \<Rightarrow> string list \<Rightarrow> pyval \<Rightarrow> unit io" where
  "setProperty json filePath keys v =
     bindIO (readJSONFile json filePath) (\<lambda>rawData.
     bindIO (liftIO (getValueOfKeys rawData (butlast keys))) (\<lambda>parentObject.
     bindIO (liftIO (index_last keys)) (\<lambda>lastKey.
     bindIO (liftIO (containsKey parentObject lastKey)) (\<lambda>present.
     if \<not> present then
       bindIO (liftIO (keys_of parentObject)) (\<lambda>allKeys.
       raise (JSONKeyNotFoundError lastKey allKeys (butlast keys)))
     else
       bindIO (liftIO (getitem parentObject lastKey)) (\<lambda>current.
       if isJSONObject current then raise (NotAPropertyError current)
       else
         bindIO (liftIO (setitemAt rawData (butlast keys) lastKey v)) (\<lambda>rawData'.
         writeJSONFile json filePath rawData'))))))"


text \<open>\<open>try\<close> with \<open>except JSONKeyNotFoundError\<close>: only that exception becomes \<open>False\<close>.\<close>

fun except_JSONKeyNotFoundError :: "error + bool \<Rightarrow> error + bool" where
  "except_JSONKeyNotFoundError (Inl (JSONKeyNotFoundError k ks found)) = Inr False"
| "except_JSONKeyNotFoundError r = r"

definition containsProperty :: "json_module \<Rightarrow> string \<Rightarrow> string list \<Rightarrow> bool io" where
  "containsProperty json filePath keys =
     bindIO (readJSONFile json filePath) (\<lambda>rawData.
     liftIO (except_JSONKeyNotFoundError
       (case getValueOfKeys rawData keys of
          Inl e \<Rightarrow> Inl e
        | Inr v \<Rightarrow> Inr (isJSONProperty v))))"

definition getObject :: "json_module \<Rightarrow> string \<Rightarrow> string list \<Rightarrow> pyval io" where
  "getObject json filePath keys =
     bindIO (readJSONFile json filePath) (\<lambda>rawData.
     bindIO (liftIO (getValueOfKeys rawData keys)) (\<lambda>object.
     if isJSONProperty object then raise (NotAObjectError object)
     else returnIO object))"

definition setObject ::
  "json_module \<Rightarrow> string \<Rightarrow> string list \<Rightarrow> pyval \<Rightarrow> unit io" where
  "setObject json filePath keys object =
     bindIO (readJSONFile json filePath) (\<lambda>rawData.
     bindIO (liftIO (getValueOfKeys rawData (butlast keys))) (\<lambda>parentObject.
     bindIO (liftIO (index_last keys)) (\<lambda>lastKey.
     bindIO (liftIO (containsKey parentObject lastKey)) (\<lambda>present.
     if \<not> present then
       bindIO (liftIO (keys_of parentObject)) (\<lambda>allKeys.
       raise (JSONKeyNotFoundError lastKey allKeys (butlast keys)))
     else
       bindIO (liftIO (getitem parentObject lastKey)) (\<lambda>current.
       if isJSONProperty current then raise (NotAObjectError current)
       else
         bindIO (liftIO (setitemAt rawData (butlast keys) lastKey object)) (\<lambda>rawData'.
         writeJSONFile json filePath rawData'))))))"

definition addObject ::
  "json_module \<Rightarrow> string \<Rightarrow> string list \<Rightarrow> string \<Rightarrow> pyval \<Rightarrow> unit io" where
  "addObject json filePath keys newKey object =
     bindIO (readJSONFile json filePath) (\<lambda>rawData.
     bindIO (liftIO (getValueOfKeys rawData keys)) (\<lambda>parentObject.
     bindIO (liftIO (containsKey parentObject newKey)) (\<lambda>present.
     if present then
       bindIO (liftIO (keys_of parentObject)) (\<lambda>allKeys.
       raise (JSONKeyAlreadyExists newKey allKeys keys))
     else if \<not> isJSONObject object then raise TypeError
     else
       bindIO (liftIO (setitemAt rawData keys newKey object)) (\<lambda>rawData'.
       writeJSONFile json filePath rawData'))))"

definition containsObject :: "json_module \<Rightarrow> string \<Rightarrow> string list \<Rightarrow> bool io" where
  "containsObject json filePath keys =
     bindIO (readJSONFile json filePath) (\<lambda>rawData.
     liftIO (except_JSONKeyNotFoundError
       (case getValueOfKeys rawData keys of
          Inl e \<Rightarrow> Inl e
        | Inr v \<Rightarrow> Inr (isJSONObject v))))"

text \<open>
  \<open>isFormatCorrect\<close> opens the file itself, then calls \<open>readJSONFile\<close> under
  \<open>except JSONDecodeError\<close>; every other exception leaves the function.
\<close>

definition isFormatCorrect :: "json_module \<Rightarrow> string \<Rightarrow> bool io" where
  "isFormatCorrect json filePath =
     bindIO (open_read filePath) (\<lambda>fp.
     (\<lambda>fs. case readJSONFile json filePath fs of
             (Inl JSONDecodeError, fs') \<Rightarrow> (Inr False, fs')
           | (Inl e, fs') \<Rightarrow> (Inl e, fs')
           | (Inr data, fs') \<Rightarrow> (Inr True, fs')))"

definition indentJSONFile :: "json_module \<Rightarrow> string \<Rightarrow> unit io" where
  "indentJSONFile json filePath =
     bindIO (readJSONFile json filePath) (\<lambda>data.
     writeJSONFile json filePath data)"

section \<open>Concrete files\<close>

text \<open>
  A finite stand-in for the json module, given by two tables. \<open>load\<close> raises
  \<open>UnicodeDecodeError\<close> on bytes that hold \<open>0xFF\<close> (no UTF-8 text does), returns the document
  the first table gives for a text and raises \<open>JSONDecodeError\<close> for any other text.
  \<open>dump\<close> writes the text the second table gives for a value and raises \<open>TypeError\<close> for
  any other value. It is used to run the operations on concrete files; the theorems with
  hypotheses below are stated for every json module.
\<close>

definition table_json :: "(string \<times> pyval) list \<Rightarrow> (pyval \<times> string) list \<Rightarrow> json_module" where
  "table_json read_table write_table =
     \<lparr> load = (\<lambda>text.
                 if CHR 0xFF \<in> set text then Inl UnicodeDecodeError
                 else (case map_of read_table text of
                         None \<Rightarrow> Inl JSONDecodeError
                       | Some data \<Rightarrow> Inr data)),
       dump = (\<lambda>data indent.
                 case map_of write_table data of
                   Some text \<Rightarrow> (text, None)
                 | None \<Rightarrow> ([], Some TypeError)) \<rparr>"

fun join_lines :: "string list \<Rightarrow> string" where
  "join_lines [] = []"
| "join_lines [l] = l"
| "join_lines (l # ls) = l @ CHR 0x0A # join_lines ls"

text \<open>
  The document \<^verbatim>\<open>{"a": {"b": 1}}\<close> of the specification's scenario, as \<open>json.dump\<close>
  writes it with \<open>indent = 4\<close> and on one line.
\<close>

definition doc_ab :: pyval where
  "doc_ab = PyDict [(''a'', PyDict [(''b'', PyInt 1)])]"

definition text_ab :: string where
  "text_ab = join_lines [''{'', ''    \"a\": {'', ''        \"b\": 1'', ''    }'', ''}'']"

definition text_compact :: string where
  "text_compact = ''{\"a\": {\"b\": 1}}''"

text \<open>\<^verbatim>\<open>{"a": 1}\<close>: the key \<open>a\<close> holds a scalar.\<close>

definition doc_a1 :: pyval where
  "doc_a1 = PyDict [(''a'', PyInt 1)]"

definition text_a1 :: string where
  "text_a1 = join_lines [''{'', ''    \"a\": 1'', ''}'']"

text \<open>\<^verbatim>\<open>{"a": {"b": 1, "c": "x"}}\<close>: the first document after \<open>c\<close> was added under \<open>a\<close>.\<close>

definition doc_abc :: pyval where
  "doc_abc = PyDict [(''a'', PyDict [(''b'', PyInt 1), (''c'', PyStr ''x'')])]"

definition text_abc :: string where
  "text_abc = join_lines
     [''{'', ''    \"a\": {'', ''        \"b\": 1,'', ''        \"c\": \"x\"'', ''    }'', ''}'']"

text \<open>
  The list \<open>[(1, 2)]\<close>, which holds a tuple. \<open>json.dump\<close> writes a tuple as an array and
  \<open>json.load\<close> reads an array as a list: the first document with \<open>[(1, 2)]\<close> under
  \<open>a\<close>, \<open>c\<close> is written as \<^verbatim>\<open>{"a": {"b": 1, "c": [[1, 2]]}}\<close>, which is read as the document
  with \<open>[[1, 2]]\<close> there.
\<close>

definition list_of_tuple :: pyval where
  "list_of_tuple = PyList [PyTuple [PyInt 1, PyInt 2]]"

definition list_of_list :: pyval where
  "list_of_list = PyList [PyList [PyInt 1, PyInt 2]]"

definition doc_ab_tuple :: pyval where
  "doc_ab_tuple = PyDict [(''a'', PyDict [(''b'', PyInt 1), (''c'', list_of_tuple)])]"

definition doc_ab_list :: pyval where
  "doc_ab_list = PyDict [(''a'', PyDict [(''b'', PyInt 1), (''c'', list_of_list)])]"

definition text_nested :: string where
  "text_nested = join_lines
     [''{'', ''    \"a\": {'', ''        \"b\": 1,'', ''        \"c\": ['',
      ''            ['', ''                1,'', ''                2'', ''            ]'',
      ''        ]'', ''    }'', ''}'']"

text \<open>A text that is not JSON, and bytes that are not UTF-8.\<close>

definition text_bad :: string where
  "text_bad = ''{''"

definition text_ff :: string where
  "text_ff = [CHR 0xFF]"

definition example_json :: json_module where
  "example_json = table_json
     [(text_ab, doc_ab), (text_compact, doc_ab), (text_a1, doc_a1), (text_abc, doc_abc),
      (text_nested, doc_ab_list)]
     [(doc_ab, text_ab), (doc_a1, text_a1), (doc_abc, text_abc),
      (doc_ab_tuple, text_nested), (doc_ab_list, text_nested)]"

definition file_ab :: storage where
  "file_ab = Map.empty(''data.json'' \<mapsto> text_ab)"

definition file_compact :: storage where
  "file_compact = Map.empty(''data.json'' \<mapsto> text_compact)"

definition file_a1 :: storage where
  "file_a1 = Map.empty(''data.json'' \<mapsto> text_a1)"



definition file_bad :: storage where
  "file_bad = Map.empty(''data.json'' \<mapsto> text_bad)"

definition file_ff :: storage where
  "file_ff = Map.empty(''data.json'' \<mapsto> text_ff)"

lemmas example_defs = example_json_def table_json_def doc_ab_def doc_a1_def doc_abc_def
  doc_ab_tuple_def doc_ab_list_def list_of_tuple_def list_of_list_def
  text_ab_def text_compact_def text_a1_def text_abc_def text_nested_def text_bad_def text_ff_def

lemma load_ab: "load example_json text_ab = Inr doc_ab"
  by (simp add: example_defs)

lemma load_compact: "load example_json text_compact = Inr doc_ab"
  by (simp add: example_defs)

lemma load_a1: "load example_json text_a1 = Inr doc_a1"
  by (simp add: example_defs)



lemma load_bad: "load example_json text_bad = Inl JSONDecodeError"
  by (simp add: example_defs)

lemma load_ff: "load example_json text_ff = Inl UnicodeDecodeError"
  by (simp add: example_defs)

lemma dump_ab: "dump example_json doc_ab indentLevel = (text_ab, None)"
  by (simp add: example_defs)



lemma stored_ab: "file_ab ''data.json'' = Some text_ab"
  by (simp add: file_ab_def)

lemma stored_compact: "file_compact ''data.json'' = Some text_compact"
  by (simp add: file_compact_def)

lemma stored_a1: "file_a1 ''data.json'' = Some text_a1"
  by (simp add: file_a1_def)


section \<open>Reading and resolving\<close>

lemma readJSONFile_existing:
  "fs filePath = Some text \<Longrightarrow> load json text = Inr rawData \<Longrightarrow>
   readJSONFile json filePath fs = (Inr rawData, fs)"
  by (simp add: readJSONFile_def exists_file_def)

lemma read_ab: "readJSONFile example_json ''data.json'' file_ab = (Inr doc_ab, file_ab)"
  using stored_ab load_ab by (rule readJSONFile_existing)

lemma read_a1: "readJSONFile example_json ''data.json'' file_a1 = (Inr doc_a1, file_a1)"
  using stored_a1 load_a1 by (rule readJSONFile_existing)

lemma read_compact:
  "readJSONFile example_json ''data.json'' file_compact = (Inr doc_ab, file_compact)"
  using stored_compact load_compact by (rule readJSONFile_existing)


lemma containsKey_dict: "containsKey (PyDict kvs) key = Inr (key \<in> fst ` set kvs)"
  by (simp add: containsKey_def)

lemma containsKey_not_dict: "type_of v \<noteq> TDict \<Longrightarrow> containsKey v key = Inl AttributeError"
  by (cases v) (simp_all add: containsKey_def)



lemma loop_append:
  "getValueOfKeys_loop r f ks cur = Inr x \<Longrightarrow>
   getValueOfKeys_loop r f (ks @ ks') cur = getValueOfKeys_loop r (f @ ks) ks' x"
proof (induction ks arbitrary: f cur)
  case Nil
  then show ?case by simp
next
  case (Cons k ks)
  then show ?case
    by (auto split: sum.splits bool.splits)
qed

text \<open>
  Whenever a prefix of the path resolves to a value that is not a \<open>dict\<close> and a key
  remains, \<open>.keys()\<close> fails: the resolution raises \<open>AttributeError\<close>.
\<close>

lemma getValueOfKeys_through_property:
  assumes "getValueOfKeys rawData ks = Inr v" and "type_of v \<noteq> TDict"
  shows "getValueOfKeys rawData (ks @ k # rest) = Inl AttributeError"
  using assms unfolding getValueOfKeys_def
  by (simp add: loop_append containsKey_not_dict)

text \<open>
  At every depth, the keys a \<open>JSONKeyNotFoundError\<close> of the resolution carries are the
  keys of the root.
\<close>

lemma keys_of_error: "keys_of v = Inl e \<Longrightarrow> e = AttributeError"
  by (cases v) simp_all

lemma containsKey_error: "containsKey v key = Inl e \<Longrightarrow> e = AttributeError"
  by (cases v) (simp_all add: containsKey_def)

lemma getitem_error: "getitem v key = Inl e \<Longrightarrow> e = KeyError \<or> e = TypeError"
  by (cases v) (auto split: option.splits)

lemma loop_reports_root_keys:
  "getValueOfKeys_loop r f ks cur = Inl (JSONKeyNotFoundError k allKeys found) \<Longrightarrow>
   keys_of r = Inr allKeys"
proof (induction ks arbitrary: f cur)
  case Nil
  then show ?case by simp
next
  case (Cons k' ks)
  then show ?case
    by (auto split: sum.splits bool.splits
        dest: keys_of_error containsKey_error getitem_error)
qed


text \<open>A key missing from an object on the path makes both \<open>contains\<close> operations \<open>False\<close>.\<close>

lemma contains_missing_key:
  assumes "fs filePath = Some text" and "load json text = Inr rawData"
    and "getValueOfKeys rawData keys = Inl (JSONKeyNotFoundError k allKeys found)"
  shows "containsProperty json filePath keys fs = (Inr False, fs)"
    and "containsObject json filePath keys fs = (Inr False, fs)"
  using assms
  by (simp_all add: containsProperty_def containsObject_def bindIO_def liftIO_def
      readJSONFile_existing)

section \<open>The claims\<close>

text \<open>
  C1. The claim: whenever the resolution reaches, with keys left, a node that is a
  property, the operation fails with \<open>JSONKeyNotFoundError\<close> and no other error. On the file
  \<^verbatim>\<open>{"a": 1}\<close> and the path \<open>("a", "b")\<close> the node under \<open>a\<close> is the integer 1, and
  \<open>getProperty\<close> leaves with \<open>AttributeError\<close>, raised by \<open>.keys()\<close> in \<open>_containsKey\<close>
  (\<open>getValueOfKeys_through_property\<close> is the general fact).
\<close>

theorem getProperty_through_scalar_AttributeError:
  "getProperty example_json ''data.json'' [''a'', ''b''] file_a1 = (Inl AttributeError, file_a1)"
  by (simp add: getProperty_def bindIO_def liftIO_def read_a1 doc_a1_def getValueOfKeys_def
      containsKey_def)

text \<open>
  C2. The claim: \<open>containsProperty\<close> and \<open>containsObject\<close> return \<open>False\<close> and never raise
  when the path does not resolve, also when an intermediate node is not an object. On the
  file \<^verbatim>\<open>{"a": 1}\<close> and the path \<open>("a", "b")\<close> both raise \<open>AttributeError\<close>, which
  \<open>except JSONKeyNotFoundError\<close> does not catch (\<open>contains_missing_key\<close> is the part of
  the claim that holds).
\<close>

theorem contains_through_scalar_AttributeError:
  "containsProperty example_json ''data.json'' [''a'', ''b''] file_a1
     = (Inl AttributeError, file_a1)
 \<and> containsObject example_json ''data.json'' [''a'', ''b''] file_a1
     = (Inl AttributeError, file_a1)"
  by (simp add: containsProperty_def containsObject_def bindIO_def liftIO_def read_a1
      doc_a1_def getValueOfKeys_def containsKey_def)

text \<open>
  C3. The claim: the \<open>JSONKeyNotFoundError\<close> of a failed resolution carries the keys of the
  object in which the key is missing, at every depth. On the file \<^verbatim>\<open>{"a": {"b": 1}}\<close>
  and the path \<open>("a", "c")\<close> the key \<open>c\<close> is missing from the object under \<open>a\<close>, whose
  keys are \<open>("b",)\<close>; the error carries \<open>("a",)\<close>, the keys of the root
  (\<open>loop_reports_root_keys\<close> is the general fact). The key and the prefix are right.
\<close>

theorem getProperty_missing_key_reports_root_keys:
  "getProperty example_json ''data.json'' [''a'', ''c''] file_ab
     = (Inl (JSONKeyNotFoundError ''c'' [''a''] [''a'']), file_ab)
 \<and> getValueOfKeys doc_ab [''a''] = Inr (PyDict [(''b'', PyInt 1)])
 \<and> keys_of (PyDict [(''b'', PyInt 1)]) = Inr [''b'']"
  by (simp add: getProperty_def bindIO_def liftIO_def read_ab doc_ab_def getValueOfKeys_def
      containsKey_def)

text \<open>
  C4. For an existing file that parses and a non-empty path whose last key is present in
  its parent object with an object as its value, \<open>setProperty\<close> raises
  \<open>NotAPropertyError\<close> and the storage is what it was.
\<close>

theorem setProperty_on_object_NotAProperty:
  assumes "fs filePath = Some text" and "load json text = Inr rawData"
    and "keys \<noteq> []"
    and "getValueOfKeys rawData (butlast keys) = Inr (PyDict kvs)"
    and "map_of kvs (last keys) = Some current"
    and "isJSONObject current"
  shows "setProperty json filePath keys v fs = (Inl (NotAPropertyError current), fs)"
proof -
  have "last keys \<in> fst ` set kvs"
    using assms(5) by (metis domI dom_map_of_conv_image_fst)
  then show ?thesis
    using assms
    by (simp add: setProperty_def bindIO_def liftIO_def raise_def readJSONFile_existing
        index_last_def containsKey_dict)
qed

text \<open>
  Witness of C4: on \<^verbatim>\<open>{"a": {"b": 1}}\<close>, \<open>setProperty\<close> at \<open>("a",)\<close> is refused and the
  file keeps its text.
\<close>

theorem setProperty_on_object_NotAProperty_witness:
  "file_ab ''data.json'' = Some text_ab
 \<and> load example_json text_ab = Inr doc_ab
 \<and> getValueOfKeys doc_ab (butlast [''a'']) = Inr (PyDict [(''a'', PyDict [(''b'', PyInt 1)])])
 \<and> map_of [(''a'', PyDict [(''b'', PyInt 1)])] (last [''a'']) = Some (PyDict [(''b'', PyInt 1)])
 \<and> isJSONObject (PyDict [(''b'', PyInt 1)])
 \<and> setProperty example_json ''data.json'' [''a''] (PyInt 5) file_ab
     = (Inl (NotAPropertyError (PyDict [(''b'', PyInt 1)])), file_ab)"
proof -
  have h3: "[''a''] \<noteq> ([] :: string list)" by simp
  have h4: "getValueOfKeys doc_ab (butlast [''a''])
              = Inr (PyDict [(''a'', PyDict [(''b'', PyInt 1)])])"
    by (simp add: getValueOfKeys_def doc_ab_def)
  have h5: "map_of [(''a'', PyDict [(''b'', PyInt 1)])] (last [''a''])
              = Some (PyDict [(''b'', PyInt 1)])" by simp
  have h6: "isJSONObject (PyDict [(''b'', PyInt 1)])" by (simp add: isJSONObject_def)
  show ?thesis
    using setProperty_on_object_NotAProperty
      [where fs = file_ab and filePath = "''data.json''" and v = "PyInt 5",
        OF stored_ab load_ab h3 h4 h5 h6]
      stored_ab load_ab h4 h5 h6
    by simp
qed




text \<open>
  C6 as stated: on an existing file \<open>isFormatCorrect\<close> returns \<open>False\<close> exactly when the
  bytes fail to parse. A file that holds the byte \<open>0xFF\<close> does not parse: \<open>json.load\<close>
  raises \<open>UnicodeDecodeError\<close>, which \<open>except JSONDecodeError\<close> does not catch, and
  \<open>isFormatCorrect\<close> raises it instead of returning \<open>False\<close>.
\<close>

theorem isFormatCorrect_undecodable_counterexample:
  "file_ff ''data.json'' = Some text_ff
 \<and> load example_json text_ff = Inl UnicodeDecodeError
 \<and> isFormatCorrect example_json ''data.json'' file_ff = (Inl UnicodeDecodeError, file_ff)
 \<and> isFormatCorrect example_json ''data.json'' file_ff \<noteq> (Inr False, file_ff)"
  by (simp add: isFormatCorrect_def bindIO_def open_read_def readJSONFile_def exists_file_def
      file_ff_def load_ff)

text \<open>
  C6 amended. On an existing file, \<open>isFormatCorrect\<close> returns \<open>True\<close> exactly when
  \<open>json.load\<close> returns a document and \<open>False\<close> exactly when \<open>json.load\<close> raises
  \<open>JSONDecodeError\<close>; it raises an exception other than \<open>JSONDecodeError\<close> exactly when
  \<open>json.load\<close> raises it. On a missing file it raises \<open>FileNotFoundError\<close>. The storage
  is what it was.
\<close>

theorem isFormatCorrect_by_outcome_of_load:
  "(fs filePath = Some text \<longrightarrow>
      (isFormatCorrect json filePath fs = (Inr True, fs)
         \<longleftrightarrow> (\<exists>data. load json text = Inr data))
    \<and> (isFormatCorrect json filePath fs = (Inr False, fs)
         \<longleftrightarrow> load json text = Inl JSONDecodeError)
    \<and> (\<forall>e. e \<noteq> JSONDecodeError \<longrightarrow>
          (isFormatCorrect json filePath fs = (Inl e, fs) \<longleftrightarrow> load json text = Inl e)))
 \<and> (fs filePath = None \<longrightarrow>
      isFormatCorrect json filePath fs = (Inl FileNotFoundError, fs))"
proof -
  have absent: "fs filePath = None \<Longrightarrow>
      isFormatCorrect json filePath fs = (Inl FileNotFoundError, fs)"
    by (simp add: isFormatCorrect_def bindIO_def open_read_def exists_file_def)
  have present: "fs filePath = Some text \<Longrightarrow>
      isFormatCorrect json filePath fs =
        (case load json text of
           Inl JSONDecodeError \<Rightarrow> (Inr False, fs)
         | Inl e \<Rightarrow> (Inl e, fs)
         | Inr data \<Rightarrow> (Inr True, fs))"
    by (simp add: isFormatCorrect_def bindIO_def open_read_def readJSONFile_def exists_file_def
        split: sum.splits error.splits)
  show ?thesis
    using absent present
    by (cases "load json text") (auto split: error.splits)
qed

text \<open>
  Witness of C6 amended: a file that parses, a file holding \<^verbatim>\<open>{\<close>, a file holding the
  byte \<open>0xFF\<close>, and no file.
\<close>

theorem isFormatCorrect_by_outcome_of_load_witness:
  "file_compact ''data.json'' = Some text_compact
 \<and> load example_json text_compact = Inr doc_ab
 \<and> isFormatCorrect example_json ''data.json'' file_compact = (Inr True, file_compact)
 \<and> file_bad ''data.json'' = Some text_bad
 \<and> load example_json text_bad = Inl JSONDecodeError
 \<and> isFormatCorrect example_json ''data.json'' file_bad = (Inr False, file_bad)
 \<and> file_ff ''data.json'' = Some text_ff
 \<and> load example_json text_ff = Inl UnicodeDecodeError
 \<and> isFormatCorrect example_json ''data.json'' file_ff = (Inl UnicodeDecodeError, file_ff)
 \<and> (Map.empty :: storage) ''data.json'' = None
 \<and> isFormatCorrect example_json ''data.json'' Map.empty = (Inl FileNotFoundError, Map.empty)"
proof -
  have s1: "file_compact ''data.json'' = Some text_compact" by (rule stored_compact)
  have s2: "file_bad ''data.json'' = Some text_bad" by (simp add: file_bad_def)
  have s3: "file_ff ''data.json'' = Some text_ff" by (simp add: file_ff_def)
  have s4: "(Map.empty :: storage) ''data.json'' = None" by simp
  show ?thesis
    using isFormatCorrect_by_outcome_of_load[of file_compact "''data.json''" text_compact example_json]
      isFormatCorrect_by_outcome_of_load[of file_bad "''data.json''" text_bad example_json]
      isFormatCorrect_by_outcome_of_load[of file_ff "''data.json''" text_ff example_json]
      isFormatCorrect_by_outcome_of_load[of Map.empty "''data.json''" text_ab example_json]
      s1 s2 s3 s4 load_compact load_bad load_ff
    by simp
qed

text \<open>
  C7. For an existing file whose text parses to a document that the json module reads
  back from what it writes, \<open>indentJSONFile\<close> applied to the result of \<open>indentJSONFile\<close>
  returns the same and leaves the same storage.
\<close>

theorem indentJSONFile_idempotent:
  assumes "fs filePath = Some text" and "load json text = Inr data"
    and "load json (fst (dump json data indentLevel)) = Inr data"
  shows "indentJSONFile json filePath (snd (indentJSONFile json filePath fs))
       = indentJSONFile json filePath fs"
  using assms
  by (auto simp: indentJSONFile_def bindIO_def readJSONFile_def writeJSONFile_def exists_file_def
      split: prod.splits option.splits)

text \<open>
  Witness of C7: the file \<^verbatim>\<open>{"a": {"b": 1}}\<close> on one line. The first call rewrites it
  with an indentation of 4, the second leaves it so.
\<close>

theorem indentJSONFile_idempotent_witness:
  "file_compact ''data.json'' = Some text_compact
 \<and> load example_json text_compact = Inr doc_ab
 \<and> load example_json (fst (dump example_json doc_ab indentLevel)) = Inr doc_ab
 \<and> indentJSONFile example_json ''data.json''
       (snd (indentJSONFile example_json ''data.json'' file_compact))
     = indentJSONFile example_json ''data.json'' file_compact
 \<and> indentJSONFile example_json ''data.json'' file_compact = (Inr (), file_ab)
 \<and> file_ab ''data.json'' \<noteq> file_compact ''data.json''"
proof -
  have h3: "load example_json (fst (dump example_json doc_ab indentLevel)) = Inr doc_ab"
    by (simp add: dump_ab load_ab)
  have wr: "writeJSONFile example_json ''data.json'' doc_ab file_compact = (Inr (), file_ab)"
    by (simp add: writeJSONFile_def exists_file_def dump_ab file_ab_def file_compact_def)
  have once: "indentJSONFile example_json ''data.json'' file_compact = (Inr (), file_ab)"
    by (simp add: indentJSONFile_def bindIO_def read_compact wr)
  have changed: "file_ab ''data.json'' \<noteq> file_compact ''data.json''"
    by (simp add: file_ab_def file_compact_def text_ab_def text_compact_def)
  show ?thesis
    using indentJSONFile_idempotent
      [where fs = file_compact and filePath = "''data.json''",
        OF stored_compact load_compact h3]
      stored_compact load_compact h3 once changed
    by simp
qed

text \<open>
  C8 as stated: \<open>_isJSONProperty\<close> is true if and only if the value is not a keyed
  container, for every value. A \<open>set\<close> is not a \<open>dict\<close>, and \<open>_isJSONProperty\<close> is false
  of it.
\<close>

theorem isJSONProperty_iff_not_object_counterexample:
  "\<not> (isJSONProperty (PyInstance ''set'') \<longleftrightarrow> \<not> isJSONObject (PyInstance ''set''))"
  by (simp add: isJSONProperty_def isJSONObject_def)

text \<open>
  C8 amended: no value is both a property and an object; a value whose type is one of
  \<open>NoneType\<close>, \<open>bool\<close>, \<open>int\<close>, \<open>float\<close>, \<open>str\<close>, \<open>list\<close> and \<open>dict\<close> is a property if and
  only if it is not an object; a value of any other type, a tuple included, is neither.
\<close>

theorem classification_of_values:
  "\<not> (isJSONProperty v \<and> isJSONObject v)
 \<and> (type_of v \<in> set [NoneType, TBool, TInt, TFloat, TStr, TList, TDict] \<longrightarrow>
      (isJSONProperty v \<longleftrightarrow> \<not> isJSONObject v))
 \<and> (type_of v \<notin> set [NoneType, TBool, TInt, TFloat, TStr, TList, TDict] \<longrightarrow>
      \<not> isJSONProperty v \<and> \<not> isJSONObject v)"
  by (auto simp: isJSONProperty_def isJSONObject_def)

text \<open>Witness of C8 amended: a list, a \<open>dict\<close>, a \<open>set\<close> and a tuple.\<close>

theorem classification_of_values_witness:
  "type_of (PyList [PyInt 1]) \<in> set [NoneType, TBool, TInt, TFloat, TStr, TList, TDict]
 \<and> isJSONProperty (PyList [PyInt 1]) \<and> \<not> isJSONObject (PyList [PyInt 1])
 \<and> type_of (PyDict []) \<in> set [NoneType, TBool, TInt, TFloat, TStr, TList, TDict]
 \<and> isJSONObject (PyDict []) \<and> \<not> isJSONProperty (PyDict [])
 \<and> type_of (PyInstance ''set'') \<notin> set [NoneType, TBool, TInt, TFloat, TStr, TList, TDict]
 \<and> \<not> isJSONProperty (PyInstance ''set'') \<and> \<not> isJSONObject (PyInstance ''set'')
 \<and> type_of (PyTuple [PyInt 1]) \<notin> set [NoneType, TBool, TInt, TFloat, TStr, TList, TDict]
 \<and> \<not> isJSONProperty (PyTuple [PyInt 1]) \<and> \<not> isJSONObject (PyTuple [PyInt 1])"
  using classification_of_values[of "PyList [PyInt 1]"]
    classification_of_values[of "PyDict []"]
    classification_of_values[of "PyInstance ''set''"]
    classification_of_values[of "PyTuple [PyInt 1]"]
  by (simp add: isJSONObject_def)

text \<open>
  C9. For an existing file that parses, \<open>setProperty\<close> and \<open>setObject\<close> with the empty
  path raise \<open>IndexError\<close>, which is none of the module's exceptions, and the storage is
  what it was.
\<close>

theorem set_with_empty_path_IndexError:
  assumes "fs filePath = Some text" and "load json text = Inr rawData"
  shows "setProperty json filePath [] v fs = (Inl IndexError, fs)
       \<and> setObject json filePath [] object fs = (Inl IndexError, fs)"
  using assms
  by (simp add: setProperty_def setObject_def bindIO_def liftIO_def readJSONFile_existing
      index_last_def getValueOfKeys_def)

text \<open>Witness of C9: the file \<^verbatim>\<open>{"a": {"b": 1}}\<close>.\<close>

theorem set_with_empty_path_IndexError_witness:
  "file_ab ''data.json'' = Some text_ab
 \<and> load example_json text_ab = Inr doc_ab
 \<and> setProperty example_json ''data.json'' [] (PyInt 5) file_ab = (Inl IndexError, file_ab)
 \<and> setObject example_json ''data.json'' [] (PyDict []) file_ab = (Inl IndexError, file_ab)"
  using set_with_empty_path_IndexError
    [where fs = file_ab and filePath = "''data.json''" and v = "PyInt 5" and object = "PyDict []",
      OF stored_ab load_ab]
    stored_ab load_ab
  by simp

text \<open>
  C10. \<open>getProperty\<close>, \<open>getObject\<close>, \<open>containsProperty\<close>, \<open>containsObject\<close> and
  \<open>isFormatCorrect\<close> leave the storage as it was, whether they return or raise.
\<close>

theorem read_only_operations_keep_storage:
  "snd (getProperty json filePath keys fs) = fs
 \<and> snd (getObject json filePath keys fs) = fs
 \<and> snd (containsProperty json filePath keys fs) = fs
 \<and> snd (containsObject json filePath keys fs) = fs
 \<and> snd (isFormatCorrect json filePath fs) = fs"
  by (simp add: getProperty_def getObject_def containsProperty_def containsObject_def
      isFormatCorrect_def bindIO_def liftIO_def raise_def returnIO_def readJSONFile_def
      open_read_def split: sum.splits option.splits prod.splits error.splits)

end
